theory Spec2Isabelle
  imports Main "HOL-Library.Multiset"
begin

section \<open>Skeleton of Thought: the outline-then-expand orchestrator\<close>

text \<open>
  The notebook \<^verbatim>\<open>skeleton_of_thought.ipynb\<close> defines a response model, two functions
  decorated as calls to a language model, and the coroutine \<^verbatim>\<open>skeleton_of_thought\<close>
  that chains them:
  \<^verbatim>\<open>
  class Skeleton(BaseModel):
      subpoints: list[str] = Field(..., description=...)

  async def skeleton_of_thought(query):
      skeleton = break_into_subpoints(query)
      tasks = [
          expand_subpoint(query, skeleton.subpoints, i + 1)
          for i, subpoint in enumerate(skeleton.subpoints)
      ]
      results = await asyncio.gather(*tasks)
      return "\n".join([result.content for result in results])
  \<close>
\<close>

subsection \<open>Data\<close>

text \<open>
  \<^verbatim>\<open>Skeleton\<close> has one required field, a list of strings; the field carries a description
  and no length constraint.
\<close>

record Skeleton =
  subpoints :: "string list"

text \<open>The response of a plain call; the orchestrator reads only its \<^verbatim>\<open>content\<close>.\<close>

record CallResponse =
  content :: string

text \<open>
  One request to the language model: the outline prompt, rendered from the query, or the
  expansion prompt, rendered from the query, the skeleton and the point index.
\<close>

datatype request =
    is_outline_request: Outline_request string
  | Expansion_request string "string list" nat

text \<open>
  The language model is outside the program. It is a parameter: what it answers to each
  of the two prompts, an exception of type \<open>'e\<close> (\<open>Inl\<close>) or a value (\<open>Inr\<close>).
\<close>

record 'e capability =
  outline_response :: "string \<Rightarrow> 'e + Skeleton"
  expansion_response :: "string \<Rightarrow> string list \<Rightarrow> nat \<Rightarrow> 'e + CallResponse"

subsection \<open>The decorated functions\<close>

text \<open>
  Modelled from the spec: the decorator \<^verbatim>\<open>openai.call\<close> of the library, which is not part
  of the two source files. A decorated function has an empty body; the spec gives each
  invocation exactly one call to the text generation capability, whose answer or failure
  is handed to the caller unchanged. A function returns its outcome together with the
  requests it has sent.
\<close>

definition break_into_subpoints ::
    "'e capability \<Rightarrow> string \<Rightarrow> ('e + Skeleton) \<times> request list" where
  "break_into_subpoints cap query =
     (outline_response cap query, [Outline_request query])"

definition expand_subpoint ::
    "'e capability \<Rightarrow> string \<Rightarrow> string list \<Rightarrow> nat \<Rightarrow> ('e + CallResponse) \<times> request list" where
  "expand_subpoint cap query skeleton point_index =
     (expansion_response cap query skeleton point_index,
      [Expansion_request query skeleton point_index])"

subsection \<open>\<^verbatim>\<open>asyncio.gather\<close>\<close>

text \<open>
  \<^verbatim>\<open>gather\<close> starts every awaitable, in argument order, and then waits. The order in
  which the children finish is not fixed by the program: it is a parameter, the latency
  of each child (by position), and the children finish by increasing latency.
\<close>

definition completion_order :: "(nat \<Rightarrow> nat) \<Rightarrow> nat \<Rightarrow> nat list" where
  "completion_order latency n = sort_key latency [0..<n]"

text \<open>
  With \<^verbatim>\<open>return_exceptions=False\<close>, the first child to finish with an exception makes
  \<^verbatim>\<open>gather\<close> raise that exception at once.
\<close>

fun first_exception :: "('e + 'a) list \<Rightarrow> nat list \<Rightarrow> 'e option" where
  "first_exception children [] = None"
| "first_exception children (i # finished) =
     (case children ! i of
        Inl e \<Rightarrow> Some e
      | Inr v \<Rightarrow> first_exception children finished)"

text \<open>\<^verbatim>\<open>fut.result()\<close> of a child that finished without an exception.\<close>

fun task_result :: "'e + 'a \<Rightarrow> 'a" where
  "task_result (Inr v) = v"

text \<open>
  When every child has finished and none has raised, the result list is read from the
  children in argument order.
\<close>

definition gather ::
    "(nat \<Rightarrow> nat) \<Rightarrow> (('e + 'a) \<times> request list) list \<Rightarrow> ('e + 'a list) \<times> request list" where
  "gather latency aws =
     (let children = map fst aws;
          sent = concat (map snd aws)
      in (case first_exception children (completion_order latency (length children)) of
            Some e \<Rightarrow> Inl e
          | None \<Rightarrow> Inr (map task_result children),
          sent))"

subsection \<open>The orchestrator\<close>

text \<open>\<^verbatim>\<open>sep.join(parts)\<close>\<close>

fun join_str :: "string \<Rightarrow> string list \<Rightarrow> string" where
  "join_str sep [] = []"
| "join_str sep [x] = x"
| "join_str sep (x # y # ys) = x @ sep @ join_str sep (y # ys)"

text \<open>
  The list comprehension: one invocation of \<^verbatim>\<open>expand_subpoint\<close> per pair of
  \<^verbatim>\<open>enumerate(skeleton.subpoints)\<close>, given as its three arguments.
\<close>

definition expansion_tasks :: "string \<Rightarrow> Skeleton \<Rightarrow> (string \<times> string list \<times> nat) list" where
  "expansion_tasks query skeleton =
     map (\<lambda>(i, subpoint). (query, subpoints skeleton, i + 1))
         (List.enumerate 0 (subpoints skeleton))"

text \<open>
  \<^verbatim>\<open>skeleton_of_thought\<close>. An exception of \<^verbatim>\<open>break_into_subpoints\<close> leaves the function
  before the comprehension; an exception out of \<^verbatim>\<open>gather\<close> leaves it before the join.
  The second component is every request sent to the language model, in order.
\<close>

definition skeleton_of_thought ::
    "'e capability \<Rightarrow> (nat \<Rightarrow> nat) \<Rightarrow> string \<Rightarrow> ('e + string) \<times> request list" where
  "skeleton_of_thought cap latency query =
     (case break_into_subpoints cap query of
        (Inl e, sent) \<Rightarrow> (Inl e, sent)
      | (Inr skeleton, sent) \<Rightarrow>
          (let tasks = map (\<lambda>(q, s, i). expand_subpoint cap q s i)
                           (expansion_tasks query skeleton)
           in case gather latency tasks of
                (Inl e, sent') \<Rightarrow> (Inl e, sent @ sent')
              | (Inr results, sent') \<Rightarrow>
                  (Inr (join_str [CHR 0x0A] (map content results)), sent @ sent')))"

text \<open>
  The outcomes of the expansions of an outline, by position: position \<open>i\<close> holds the
  answer to the request for point \<open>i + 1\<close>.
\<close>

definition expansion_outcomes ::
    "'e capability \<Rightarrow> string \<Rightarrow> Skeleton \<Rightarrow> ('e + CallResponse) list" where
  "expansion_outcomes cap query skeleton =
     map (\<lambda>i. expansion_response cap query (subpoints skeleton) (Suc i))
         [0..<length (subpoints skeleton)]"

subsection \<open>Test doubles\<close>

text \<open>The decimal rendering of a point index, as an f-string writes it.\<close>

definition digit_char :: "nat \<Rightarrow> char" where
  "digit_char d = ''0123456789'' ! d"

function str_of_nat :: "nat \<Rightarrow> string" where
  "str_of_nat n =
     (if n < 10 then [digit_char n] else str_of_nat (n div 10) @ [digit_char (n mod 10)])"
  by pat_completeness auto
termination
  by (relation "measure id") auto

declare str_of_nat.simps [simp del]

text \<open>
  The fixed stand-ins of the spec's testable properties: an outline generator that
  returns two labels whatever the query, and an expander that returns
  \<^verbatim>\<open>"Point <i> expanded."\<close> for index \<open>i\<close>.
\<close>

definition stub_capability :: "'e capability" where
  "stub_capability =
     \<lparr>outline_response =
        (\<lambda>query. Inr \<lparr>subpoints = [''Identify distractions'', ''Practice mindfulness'']\<rparr>),
      expansion_response =
        (\<lambda>query skeleton point_index.
           Inr \<lparr>content = ''Point '' @ str_of_nat point_index @ '' expanded.''\<rparr>)\<rparr>"

text \<open>
  The scenario of the spec: three labels for the query of the notebook (the first three
  of its recorded outline) and the same index-tagged expander.
\<close>

definition scenario_capability :: "'e capability" where
  "scenario_capability =
     \<lparr>outline_response =
        (\<lambda>query. Inr \<lparr>subpoints = [''Identify distractions'',
                                      ''Implement time management techniques'',
                                      ''Practice mindfulness'']\<rparr>),
      expansion_response =
        (\<lambda>query skeleton point_index.
           Inr \<lparr>content = ''Point '' @ str_of_nat point_index @ '' expanded.''\<rparr>)\<rparr>"

text \<open>The error taxonomy of the spec (section 7), used as the exceptions of failing doubles.\<close>

datatype error =
    GenerationError string
  | ParseError string
  | OrchestrationError "error list"

definition failing_outline_capability :: "error capability" where
  "failing_outline_capability =
     \<lparr>outline_response = (\<lambda>query. Inl (GenerationError ''outline unavailable'')),
      expansion_response =
        (\<lambda>query skeleton point_index.
           Inr \<lparr>content = ''Point '' @ str_of_nat point_index @ '' expanded.''\<rparr>)\<rparr>"

text \<open>Two labels; every expansion fails, each with an error that names its point.\<close>

definition failing_expansions_capability :: "error capability" where
  "failing_expansions_capability =
     \<lparr>outline_response =
        (\<lambda>query. Inr \<lparr>subpoints = [''Identify distractions'', ''Practice mindfulness'']\<rparr>),
      expansion_response =
        (\<lambda>query skeleton point_index.
           Inl (GenerationError (''point '' @ str_of_nat point_index)))\<rparr>"

text \<open>A language model that answers the outline prompt with the given labels.\<close>

definition fixed_outline_capability :: "string list \<Rightarrow> 'e capability" where
  "fixed_outline_capability labels =
     \<lparr>outline_response = (\<lambda>query. Inr \<lparr>subpoints = labels\<rparr>),
      expansion_response =
        (\<lambda>query skeleton point_index.
           Inr \<lparr>content = ''Point '' @ str_of_nat point_index @ '' expanded.''\<rparr>)\<rparr>"

subsection \<open>What the spec asks of outlines and of failures\<close>

text \<open>
  The invariant the spec's data model gives an outline: between 1 and 10 entries.
\<close>

definition outline_within_bounds :: "Skeleton \<Rightarrow> bool" where
  "outline_within_bounds skeleton \<longleftrightarrow>
     1 \<le> length (subpoints skeleton) \<and> length (subpoints skeleton) \<le> 10"

text \<open>
  The failure policy as the spec words it (sections 4.3 and 7), to compare with
  \<^verbatim>\<open>skeleton_of_thought\<close>: the failures of the expansions, all of them, come back in one
  \<open>OrchestrationError\<close>; without a failure, the expansions joined in outline order.
\<close>

definition produce_structured_answer_spec :: "error capability \<Rightarrow> string \<Rightarrow> error + string" where
  "produce_structured_answer_spec cap query =
     (case outline_response cap query of
        Inl e \<Rightarrow> Inl (OrchestrationError [e])
      | Inr skeleton \<Rightarrow>
          (let outcomes = expansion_outcomes cap query skeleton;
               failures = List.map_filter
                 (\<lambda>outcome. case outcome of Inl e \<Rightarrow> Some e | Inr r \<Rightarrow> None) outcomes
           in if failures = []
              then Inr (join_str [CHR 0x0A] (map (content \<circ> task_result) outcomes))
              else Inl (OrchestrationError failures)))"


section \<open>Checks on generated code: syntax and imports\<close>

text \<open>
  The cookbook page \<^verbatim>\<open>evaluating_documentation_agent.md\<close> defines four functions:
  \<^verbatim>\<open>
  def check_syntax(code_string: str) -> bool:
      try:
          compile(code_string, "<string>", "exec")
          return True
      except SyntaxError as e:
          print(f"Syntax error: {e}")
          return False

  def is_importable(code_string: str) -> bool:
      try:
          tree = ast.parse(code_string)
      except SyntaxError:
          return False
      for node in ast.walk(tree):
          if isinstance(node, ast.Import | ast.ImportFrom):
              module_name = (
                  node.module if isinstance(node, ast.ImportFrom) else node.names[0].name
              )
              if not check_module(module_name):
                  return False
              if isinstance(node, ast.ImportFrom):
                  for alias in node.names:
                      if not check_attribute(module_name, alias.name):
                          return False
      return True

  def check_module(module_name):
      try:
          spec = importlib.util.find_spec(module_name)
          return spec is not None
      except (ImportError, AttributeError, ValueError):
          return False

  def check_attribute(module_name, attribute):
      try:
          spec = importlib.util.find_spec(module_name)
          if spec is None:
              return False
          module = importlib.util.module_from_spec(spec)
          if spec.loader:
              spec.loader.exec_module(module)
          return hasattr(module, attribute)
      except (ImportError, AttributeError):
          return False
  \<close>
\<close>

subsection \<open>Exceptions and syntax trees\<close>

text \<open>
  The exceptions the four functions tell apart, each with its message; every other
  exception is \<open>OtherException\<close>. A subclass counts as its base class
  (\<^verbatim>\<open>IndentationError\<close> as \<open>SyntaxError\<close>, \<^verbatim>\<open>ModuleNotFoundError\<close> as \<open>ImportError\<close>).
\<close>

datatype py_exception =
    SyntaxError string
  | ImportError string
  | AttributeError string
  | ValueError string
  | IndexError string
  | OtherException string

text \<open>\<^verbatim>\<open>ast.alias\<close>: the functions read only its \<^verbatim>\<open>name\<close>.\<close>

record ast_alias =
  name :: string

text \<open>
  The nodes of a syntax tree, as far as the functions tell them apart: the module,
  \<^verbatim>\<open>import a, b\<close>, \<^verbatim>\<open>from m import a, b\<close> (the module is \<^verbatim>\<open>None\<close> in
  \<^verbatim>\<open>from . import a\<close>), an alias, and any other node with its children.
\<close>

datatype node =
    Module "node list"
  | Import "ast_alias list"
  | ImportFrom "string option" "ast_alias list"
  | Alias ast_alias
  | Other "node list"

fun iter_child_nodes :: "node \<Rightarrow> node list" where
  "iter_child_nodes (Module body) = body"
| "iter_child_nodes (Import names) = map Alias names"
| "iter_child_nodes (ImportFrom module names) = map Alias names"
| "iter_child_nodes (Alias a) = []"
| "iter_child_nodes (Other children) = children"

text \<open>The number of nodes of a tree; it bounds the work of \<^verbatim>\<open>ast.walk\<close>.\<close>

fun node_count :: "node \<Rightarrow> nat" where
  "node_count (Module body) = Suc (sum_list (map node_count body))"
| "node_count (Import names) = Suc (length names)"
| "node_count (ImportFrom module names) = Suc (length names)"
| "node_count (Alias a) = Suc 0"
| "node_count (Other children) = Suc (sum_list (map node_count children))"

text \<open>
  \<^verbatim>\<open>ast.walk\<close>: breadth first, from a queue that starts with the root; a node is taken
  from the front, its children are put at the back, and the node is yielded.
\<close>

function walk_todo :: "node list \<Rightarrow> node list" where
  "walk_todo [] = []"
| "walk_todo (node # todo) = node # walk_todo (todo @ iter_child_nodes node)"
  by pat_completeness auto
termination
proof (relation "measure (\<lambda>todo. sum_list (map node_count todo))")
  show "wf (measure (\<lambda>todo. sum_list (map node_count todo)))"
    by simp
next
  fix node :: node and todo :: "node list"
  have "sum_list (map node_count (iter_child_nodes node)) < node_count node"
    by (cases node) (simp_all add: comp_def sum_list_triv)
  then show "(todo @ iter_child_nodes node, node # todo)
      \<in> measure (\<lambda>todo. sum_list (map node_count todo))"
    by simp
qed

definition walk :: "node \<Rightarrow> node list" where
  "walk tree = walk_todo [tree]"

subsection \<open>The interpreter and its import system\<close>

text \<open>
  \<^verbatim>\<open>compile\<close>, \<^verbatim>\<open>ast.parse\<close>, \<^verbatim>\<open>importlib.util\<close> and \<^verbatim>\<open>print\<close> belong to Python, not to
  the page. They are parameters: what each returns or raises. \<^verbatim>\<open>compile\<close> and
  \<^verbatim>\<open>ast.parse\<close> are two parameters, since the compiler rejects texts that the parser
  accepts (a \<^verbatim>\<open>return\<close> outside a function). \<^verbatim>\<open>print\<close> can raise when the standard
  output cannot encode the line. A module specification has type \<open>'m\<close>; a module is
  the list of the names of its attributes, and \<^verbatim>\<open>hasattr(module, attribute)\<close> is
  membership in that list.
\<close>

record 'm python =
  compile_exec :: "string \<Rightarrow> py_exception + unit"
  ast_parse :: "string \<Rightarrow> py_exception + node"
  find_spec :: "string option \<Rightarrow> py_exception + 'm option"
  module_from_spec :: "'m \<Rightarrow> py_exception + string list"
  loader :: "'m \<Rightarrow> bool"
  exec_module :: "'m \<Rightarrow> string list \<Rightarrow> py_exception + string list"
  print_stdout :: "string \<Rightarrow> py_exception + unit"

subsection \<open>The four functions\<close>


definition check_module :: "'m python \<Rightarrow> string option \<Rightarrow> py_exception + bool" where
  "check_module py module_name =
     (case find_spec py module_name of
        Inr spec \<Rightarrow> Inr (spec \<noteq> None)
      | Inl (ImportError m) \<Rightarrow> Inr False
      | Inl (AttributeError m) \<Rightarrow> Inr False
      | Inl (ValueError m) \<Rightarrow> Inr False
      | Inl other \<Rightarrow> Inl other)"

definition check_attribute :: "'m python \<Rightarrow> string option \<Rightarrow> string \<Rightarrow> py_exception + bool" where
  "check_attribute py module_name attribute =
     (case (case find_spec py module_name of
              Inl e \<Rightarrow> Inl e
            | Inr None \<Rightarrow> Inr False
            | Inr (Some spec) \<Rightarrow>
                (case module_from_spec py spec of
                   Inl e \<Rightarrow> Inl e
                 | Inr module \<Rightarrow>
                     (case (if loader py spec then exec_module py spec module else Inr module) of
                        Inl e \<Rightarrow> Inl e
                      | Inr module' \<Rightarrow> Inr (attribute \<in> set module')))) of
        Inl (ImportError m) \<Rightarrow> Inr False
      | Inl (AttributeError m) \<Rightarrow> Inr False
      | outcome \<Rightarrow> outcome)"

text \<open>
  The inner loop of \<^verbatim>\<open>is_importable\<close>, over the names of a \<^verbatim>\<open>from\<close> import:
  \<open>Inr False\<close> is the \<^verbatim>\<open>return False\<close>, \<open>Inr True\<close> the end of the loop.
\<close>

fun check_names :: "'m python \<Rightarrow> string option \<Rightarrow> ast_alias list \<Rightarrow> py_exception + bool" where
  "check_names py module_name [] = Inr True"
| "check_names py module_name (a # names) =
     (case check_attribute py module_name (name a) of
        Inl e \<Rightarrow> Inl e
      | Inr ok \<Rightarrow> if \<not> ok then Inr False else check_names py module_name names)"

text \<open>
  The outer loop, over the nodes that \<^verbatim>\<open>ast.walk\<close> yields. \<^verbatim>\<open>node.names[0]\<close> of an
  import without names would raise \<^verbatim>\<open>IndexError\<close>.
\<close>

fun check_nodes :: "'m python \<Rightarrow> node list \<Rightarrow> py_exception + bool" where
  "check_nodes py [] = Inr True"
| "check_nodes py (Import names # nodes) =
     (case names of
        [] \<Rightarrow> Inl (IndexError ''list index out of range'')
      | a # others \<Rightarrow>
          (case check_module py (Some (name a)) of
             Inl e \<Rightarrow> Inl e
           | Inr ok \<Rightarrow> if \<not> ok then Inr False else check_nodes py nodes))"
| "check_nodes py (ImportFrom module names # nodes) =
     (case check_module py module of
        Inl e \<Rightarrow> Inl e
      | Inr ok \<Rightarrow>
          if \<not> ok then Inr False
          else (case check_names py module names of
                  Inl e \<Rightarrow> Inl e
                | Inr ok' \<Rightarrow> if \<not> ok' then Inr False else check_nodes py nodes))"
| "check_nodes py (node # nodes) = check_nodes py nodes"

definition is_importable :: "'m python \<Rightarrow> string \<Rightarrow> py_exception + bool" where
  "is_importable py code_string =
     (case ast_parse py code_string of
        Inl (SyntaxError m) \<Rightarrow> Inr False
      | Inl other \<Rightarrow> Inl other
      | Inr tree \<Rightarrow> check_nodes py (walk tree))"

subsection \<open>A small interpreter for examples\<close>

text \<open>
  An interpreter that knows five programs and one module, and answers on them as
  CPython does. \<^verbatim>\<open>def f(:\<close> is a syntax error for the parser and the compiler.
  \<^verbatim>\<open>return 5\<close> is accepted by the parser, as a module of one \<^verbatim>\<open>Return\<close> statement
  over a constant, and rejected by the compiler with a \<^verbatim>\<open>SyntaxError\<close>. The three
  import statements parse to one \<^verbatim>\<open>Import\<close> node each. Every other text is an empty
  module. Only \<^verbatim>\<open>math\<close> can be found, and printing succeeds.
\<close>

definition example_python :: "string python" where
  "example_python =
     \<lparr>compile_exec =
        (\<lambda>code.
           if code = ''def f(:'' then Inl (SyntaxError ''invalid syntax'')
           else if code = ''return 5'' then Inl (SyntaxError ''return outside function'')
           else Inr ()),
      ast_parse =
        (\<lambda>code.
           if code = ''def f(:'' then Inl (SyntaxError ''invalid syntax'')
           else if code = ''return 5'' then Inr (Module [Other [Other []]])
           else if code = ''import math, non_existent_module''
             then Inr (Module [Import [\<lparr>name = ''math''\<rparr>, \<lparr>name = ''non_existent_module''\<rparr>]])
           else if code = ''import non_existent_module, math''
             then Inr (Module [Import [\<lparr>name = ''non_existent_module''\<rparr>, \<lparr>name = ''math''\<rparr>]])
           else if code = ''import non_existent_module''
             then Inr (Module [Import [\<lparr>name = ''non_existent_module''\<rparr>]])
           else Inr (Module [])),
      find_spec = (\<lambda>module_name. if module_name = Some ''math'' then Inr (Some ''math'') else Inr None),
      module_from_spec = (\<lambda>spec. Inr [''__name__'', ''__spec__'']),
      loader = (\<lambda>spec. True),
      exec_module = (\<lambda>spec module. Inr (module @ [''pi'', ''sqrt''])),
      print_stdout = (\<lambda>line. Inr ())\<rparr>"

section \<open>Properties of the orchestrator\<close>

subsection \<open>Auxiliary facts\<close>

lemma completion_order_Nil: "completion_order latency 0 = []"
  by (simp add: completion_order_def)

lemma expansion_tasks_eq:
  "expansion_tasks query skeleton =
     map (\<lambda>i. (query, subpoints skeleton, Suc i)) [0..<length (subpoints skeleton)]"
  unfolding expansion_tasks_def enumerate_eq_zip
  by (rule nth_equalityI) simp_all

lemma first_exception_None_iff:
  "first_exception children order = None \<longleftrightarrow> (\<forall>i \<in> set order. \<exists>v. children ! i = Inr v)"
  by (induction order) (auto split: sum.splits)

lemma first_exception_sorted:
  assumes "first_exception children order = Some e"
      and "sorted (map latency order)"
  shows "\<exists>j \<in> set order. children ! j = Inl e \<and>
           (\<forall>k \<in> set order. (\<exists>e'. children ! k = Inl e') \<longrightarrow> latency j \<le> latency k)"
  using assms
proof (induction order)
  case Nil
  then show ?case by simp
next
  case (Cons i order)
  show ?case
  proof (cases "children ! i")
    case (Inl e')
    with Cons.prems show ?thesis by auto
  next
    case (Inr v)
    with Cons.prems have "first_exception children order = Some e" "sorted (map latency order)"
      by simp_all
    with Cons.IH obtain j where j: "j \<in> set order" "children ! j = Inl e"
      "\<forall>k \<in> set order. (\<exists>e'. children ! k = Inl e') \<longrightarrow> latency j \<le> latency k"
      by blast
    with Inr show ?thesis by auto
  qed
qed

lemma set_completion_order: "set (completion_order latency n) = {0..<n}"
  by (simp add: completion_order_def)

lemma sorted_completion_order: "sorted (map latency (completion_order latency n))"
  by (simp add: completion_order_def)

lemma map_task_result_Inr:
  assumes "\<forall>i < length children. \<exists>v. children ! i = Inr v"
  shows "map Inr (map task_result children) = children"
proof (rule nth_equalityI)
  show "length (map Inr (map task_result children)) = length children" by simp
next
  fix i assume "i < length (map Inr (map task_result children))"
  then have i: "i < length children" by simp
  with assms obtain v where "children ! i = Inr v" by blast
  with i show "map Inr (map task_result children) ! i = children ! i" by simp
qed

text \<open>
  Every order of the children is the completion order of some latency, so a statement
  for every latency is a statement for every order of completion.
\<close>

lemma every_order_is_a_completion_order:
  assumes "distinct order" and "set order = {0..<n}"
  shows "\<exists>latency. completion_order latency n = order"
proof -
  have len: "length order = n"
    using assms distinct_card [of order] by simp
  define latency where "latency = the_inv_into {0..<n} (\<lambda>k. order ! k)"
  have inj: "inj_on (\<lambda>k. order ! k) {0..<n}"
    using assms(1) len by (auto simp: inj_on_def nth_eq_iff_index_eq)
  have lat: "latency (order ! k) = k" if "k < n" for k
    unfolding latency_def using that by (intro the_inv_into_f_f [OF inj]) simp
  have m: "map latency order = [0..<n]"
    using lat len by (intro nth_equalityI) simp_all
  have "mset [0..<n] = mset order"
    using assms by (intro set_eq_iff_mset_eq_distinct [THEN iffD1]) simp_all
  moreover have "inj_on latency (set [0..<n])"
  proof (rule inj_onI)
    fix x y assume "x \<in> set [0..<n]" "y \<in> set [0..<n]" "latency x = latency y"
    then obtain i j where "i < n" "j < n" "x = order ! i" "y = order ! j"
      using assms(2) len by (metis atLeastLessThan_upt in_set_conv_nth)
    with \<open>latency x = latency y\<close> lat show "x = y" by simp
  qed
  moreover have "sorted (map latency order)"
    by (simp add: m)
  ultimately have "sort_key latency [0..<n] = order"
    by (rule sort_key_inj_key_eq)
  then show ?thesis
    by (auto simp: completion_order_def)
qed

text \<open>
  When \<^verbatim>\<open>gather\<close> returns, every child has returned: \<open>task_result\<close> is only ever
  applied to a result.
\<close>

lemma gather_returns_all_results:
  assumes "fst (gather latency aws) = Inr results"
  shows "map fst aws = map Inr results"
proof -
  let ?children = "map fst aws"
  from assms have none: "first_exception ?children
      (completion_order latency (length ?children)) = None"
    and results: "results = map task_result ?children"
    by (auto simp: gather_def Let_def split: option.splits)
  from none have "\<forall>i < length ?children. \<exists>v. ?children ! i = Inr v"
    by (simp only: first_exception_None_iff set_completion_order) simp
  then have "map Inr (map task_result ?children) = ?children"
    by (rule map_task_result_Inr)
  with results show ?thesis
    by simp
qed

lemma skeleton_of_thought_unfold:
  assumes "outline_response cap query = Inr skeleton"
  shows "skeleton_of_thought cap latency query =
     (case first_exception (expansion_outcomes cap query skeleton)
             (completion_order latency (length (subpoints skeleton))) of
        Some e \<Rightarrow> Inl e
      | None \<Rightarrow> Inr (join_str [CHR 0x0A]
                 (map content (map task_result (expansion_outcomes cap query skeleton)))),
      Outline_request query #
        map (\<lambda>i. Expansion_request query (subpoints skeleton) (Suc i))
          [0..<length (subpoints skeleton)])"
proof -
  let ?tasks = "map (\<lambda>(q, s, i). expand_subpoint cap q s i) (expansion_tasks query skeleton)"
  have fst_tasks: "map fst ?tasks = expansion_outcomes cap query skeleton"
    by (simp add: expansion_tasks_eq expansion_outcomes_def expand_subpoint_def comp_def)
  have snd_tasks: "concat (map snd ?tasks) =
      map (\<lambda>i. Expansion_request query (subpoints skeleton) (Suc i))
        [0..<length (subpoints skeleton)]"
    by (simp add: expansion_tasks_eq expand_subpoint_def comp_def concat_map_singleton)
  have len: "length (expansion_outcomes cap query skeleton) = length (subpoints skeleton)"
    by (simp add: expansion_outcomes_def)
  have g: "gather latency ?tasks =
      (case first_exception (expansion_outcomes cap query skeleton)
              (completion_order latency (length (subpoints skeleton))) of
         Some e \<Rightarrow> Inl e
       | None \<Rightarrow> Inr (map task_result (expansion_outcomes cap query skeleton)),
       map (\<lambda>i. Expansion_request query (subpoints skeleton) (Suc i))
         [0..<length (subpoints skeleton)])"
    by (simp only: gather_def Let_def fst_tasks snd_tasks len)
  show ?thesis
    using assms
    by (simp add: skeleton_of_thought_def break_into_subpoints_def Let_def g split: option.splits)
qed


lemma length_expansion_outcomes:
  "length (expansion_outcomes cap query skeleton) = length (subpoints skeleton)"
  by (simp add: expansion_outcomes_def)

lemma nth_expansion_outcomes:
  "i < length (subpoints skeleton) \<Longrightarrow>
     expansion_outcomes cap query skeleton ! i =
       expansion_response cap query (subpoints skeleton) (Suc i)"
  by (simp add: expansion_outcomes_def)

lemma sent_requests:
  assumes "outline_response cap query = Inr skeleton"
  shows "snd (skeleton_of_thought cap latency query) =
     Outline_request query #
       map (Expansion_request query (subpoints skeleton))
         [1..<Suc (length (subpoints skeleton))]"
proof -
  have "map (\<lambda>i. Expansion_request query (subpoints skeleton) (Suc i))
          [0..<length (subpoints skeleton)]
        = map (Expansion_request query (subpoints skeleton))
            (map Suc [0..<length (subpoints skeleton)])"
    by simp
  also have "\<dots> = map (Expansion_request query (subpoints skeleton))
            [1..<Suc (length (subpoints skeleton))]"
    by (simp only: map_Suc_upt One_nat_def)
  finally show ?thesis
    by (simp add: skeleton_of_thought_unfold [OF assms])
qed

lemma count_list_upt: "count_list [m..<n] i = (if m \<le> i \<and> i < n then 1 else 0)"
  by (induction n) auto

subsection \<open>The claims\<close>

text \<open>
  Claim C1. When the outline has \<open>N\<close> entries and every expansion succeeds, the result
  is the expansions joined in outline order, the text for point 1 first and the text
  for point \<open>N\<close> last, whatever the order in which the expansions finish (for every
  latency of the children).
\<close>

theorem assembled_in_outline_order:
  assumes "outline_response cap query = Inr skeleton"
      and "length texts = length (subpoints skeleton)"
      and "\<forall>i < length texts.
             expansion_response cap query (subpoints skeleton) (i + 1)
               = Inr \<lparr>content = texts ! i\<rparr>"
  shows "fst (skeleton_of_thought cap latency query) = Inr (join_str [CHR 0x0A] texts)"
proof -
  let ?outs = "expansion_outcomes cap query skeleton"
  have outs: "?outs = map (\<lambda>t. Inr \<lparr>content = t\<rparr>) texts"
    using assms(2,3)
    by (intro nth_equalityI) (simp_all add: length_expansion_outcomes nth_expansion_outcomes)
  have "\<forall>i \<in> set (completion_order latency (length (subpoints skeleton))).
          \<exists>v. ?outs ! i = Inr v"
    using assms(2) by (simp add: set_completion_order outs)
  then have none: "first_exception ?outs
      (completion_order latency (length (subpoints skeleton))) = None"
    by (simp only: first_exception_None_iff)
  have "map content (map task_result ?outs) = texts"
    by (simp add: outs comp_def)
  with none show ?thesis
    by (simp add: skeleton_of_thought_unfold [OF assms(1)])
qed

theorem assembled_in_outline_order_witness:
  "outline_response (scenario_capability :: error capability) ''How can I improve my focus?''
     = Inr \<lparr>subpoints = [''Identify distractions'', ''Implement time management techniques'',
                          ''Practice mindfulness'']\<rparr>
   \<and> fst (skeleton_of_thought (scenario_capability :: error capability) (\<lambda>i. 3 - i)
          ''How can I improve my focus?'')
     = Inr (''Point 1 expanded.'' @ [CHR 0x0A] @ ''Point 2 expanded.'' @ [CHR 0x0A]
            @ ''Point 3 expanded.'')"
  using assembled_in_outline_order
    [of "scenario_capability :: error capability" "''How can I improve my focus?''"
        "\<lparr>subpoints = [''Identify distractions'', ''Implement time management techniques'',
                        ''Practice mindfulness'']\<rparr>"
        "[''Point 1 expanded.'', ''Point 2 expanded.'', ''Point 3 expanded.'']"
        "\<lambda>i. 3 - i"]
  by (simp add: scenario_capability_def str_of_nat.simps digit_char_def All_less_Suc)

text \<open>
  Claim C2. For an outline of \<open>N\<close> entries the orchestrator makes exactly \<open>N\<close>
  invocations of the expander, one for each index 1..N in turn, each with the query,
  the whole outline and its own index; and each of them is run (its request is sent).
\<close>

theorem one_expansion_per_index:
  assumes "outline_response cap query = Inr skeleton"
  shows "expansion_tasks query skeleton =
           map (\<lambda>i. (query, subpoints skeleton, i)) [1..<Suc (length (subpoints skeleton))]
         \<and> length (expansion_tasks query skeleton) = length (subpoints skeleton)
         \<and> tl (snd (skeleton_of_thought cap latency query)) =
             map (\<lambda>(q, s, i). Expansion_request q s i) (expansion_tasks query skeleton)"
proof -
  have "map (\<lambda>i. (query, subpoints skeleton, Suc i)) [0..<length (subpoints skeleton)]
        = map (\<lambda>i. (query, subpoints skeleton, i)) (map Suc [0..<length (subpoints skeleton)])"
    by simp
  also have "\<dots> = map (\<lambda>i. (query, subpoints skeleton, i))
                     [1..<Suc (length (subpoints skeleton))]"
    by (simp only: map_Suc_upt One_nat_def)
  finally have tasks: "expansion_tasks query skeleton =
      map (\<lambda>i. (query, subpoints skeleton, i)) [1..<Suc (length (subpoints skeleton))]"
    by (simp only: expansion_tasks_eq)
  then show ?thesis
    by (simp add: sent_requests [OF assms] comp_def del: upt_Suc)
qed

theorem one_expansion_per_index_witness:
  "outline_response (scenario_capability :: error capability) ''q''
     = Inr \<lparr>subpoints = [''Identify distractions'', ''Implement time management techniques'',
                          ''Practice mindfulness'']\<rparr>
   \<and> expansion_tasks ''q'' \<lparr>subpoints = [''Identify distractions'',
          ''Implement time management techniques'', ''Practice mindfulness'']\<rparr>
       = [(''q'', [''Identify distractions'', ''Implement time management techniques'',
                   ''Practice mindfulness''], 1),
          (''q'', [''Identify distractions'', ''Implement time management techniques'',
                   ''Practice mindfulness''], 2),
          (''q'', [''Identify distractions'', ''Implement time management techniques'',
                   ''Practice mindfulness''], 3)]
   \<and> tl (snd (skeleton_of_thought (scenario_capability :: error capability) (\<lambda>i. 0) ''q''))
       = map (Expansion_request ''q'' [''Identify distractions'',
                ''Implement time management techniques'', ''Practice mindfulness'']) [1, 2, 3]"
  using one_expansion_per_index
    [of "scenario_capability :: error capability" "''q''"
        "\<lparr>subpoints = [''Identify distractions'', ''Implement time management techniques'',
                        ''Practice mindfulness'']\<rparr>"
        "\<lambda>i. 0"]
  by (simp add: scenario_capability_def upt_rec)

text \<open>
  Claim C3. With the outline generator replaced by a double that returns the two labels
  and the expander by a double that returns \<^verbatim>\<open>"Point <i> expanded."\<close>, the orchestrator
  returns exactly \<^verbatim>\<open>"Point 1 expanded.\nPoint 2 expanded."\<close>, for every query and every
  order of completion.
\<close>

theorem stub_result:
  "fst (skeleton_of_thought stub_capability latency query)
     = Inr (''Point 1 expanded.'' @ [CHR 0x0A] @ ''Point 2 expanded.'')"
  by (simp add: skeleton_of_thought_def break_into_subpoints_def expansion_tasks_def
        enumerate_eq_zip expand_subpoint_def gather_def completion_order_def
        stub_capability_def str_of_nat.simps digit_char_def upt_rec)

text \<open>
  Claim C4. When the outline generator fails, the orchestrator fails with that very
  exception and no expansion request is sent: the only request is the outline's. In
  every run the outline request is the first one sent, so no expansion is requested
  before the outline call has returned.
\<close>

theorem outline_failure_stops_everything:
  assumes "outline_response cap query = Inl e"
  shows "skeleton_of_thought cap latency query = (Inl e, [Outline_request query])
         \<and> filter (\<lambda>r. \<not> is_outline_request r) (snd (skeleton_of_thought cap latency query)) = []
         \<and> take 1 (snd (skeleton_of_thought cap' latency' query')) = [Outline_request query']"
proof -
  have "take 1 (snd (skeleton_of_thought cap' latency' query')) = [Outline_request query']"
    by (cases "outline_response cap' query'")
       (simp_all add: skeleton_of_thought_def break_into_subpoints_def Let_def
          split: prod.splits sum.splits)
  then show ?thesis
    using assms by (simp add: skeleton_of_thought_def break_into_subpoints_def)
qed

theorem outline_failure_stops_everything_witness:
  "outline_response failing_outline_capability ''q'' = Inl (GenerationError ''outline unavailable'')
   \<and> skeleton_of_thought failing_outline_capability (\<lambda>i. 0) ''q''
       = (Inl (GenerationError ''outline unavailable''), [Outline_request ''q''])
   \<and> take 1 (snd (skeleton_of_thought (stub_capability :: error capability) (\<lambda>i. 0) ''q''))
       = [Outline_request ''q'']"
  using outline_failure_stops_everything
    [of failing_outline_capability "''q''" "GenerationError ''outline unavailable''"
        "\<lambda>i. 0" "stub_capability :: error capability" "\<lambda>i. 0" "''q''"]
  by (simp add: failing_outline_capability_def)

text \<open>
  Claim C5, as amended. When at least one expansion fails, the orchestrator fails as a
  whole and returns no partial result. The exception it raises is the exception, unchanged,
  of one failing expansion: the one that finishes first among the failing ones. The other
  failures are not reported.
\<close>

theorem first_expansion_failure_surfaces:
  assumes "outline_response cap query = Inr skeleton"
      and "i < length (subpoints skeleton)"
      and "expansion_response cap query (subpoints skeleton) (i + 1) = Inl e0"
  shows "\<exists>j e. j < length (subpoints skeleton)
           \<and> expansion_response cap query (subpoints skeleton) (j + 1) = Inl e
           \<and> fst (skeleton_of_thought cap latency query) = Inl e
           \<and> (\<forall>k < length (subpoints skeleton).
                 (\<exists>e'. expansion_response cap query (subpoints skeleton) (k + 1) = Inl e')
                   \<longrightarrow> latency j \<le> latency k)"
proof -
  let ?n = "length (subpoints skeleton)"
  let ?outs = "expansion_outcomes cap query skeleton"
  let ?order = "completion_order latency ?n"
  have "i \<in> set ?order" "?outs ! i = Inl e0"
    using assms(2,3) by (simp_all add: set_completion_order nth_expansion_outcomes)
  then have "first_exception ?outs ?order \<noteq> None"
    by (auto simp: first_exception_None_iff intro!: bexI [of _ i])
  then obtain e where e: "first_exception ?outs ?order = Some e"
    by blast
  from first_exception_sorted [OF e sorted_completion_order]
  obtain j where j: "j \<in> set ?order" "?outs ! j = Inl e"
    "\<forall>k \<in> set ?order. (\<exists>e'. ?outs ! k = Inl e') \<longrightarrow> latency j \<le> latency k"
    by blast
  from j(1) have jn: "j < ?n"
    by (simp add: set_completion_order)
  have "expansion_response cap query (subpoints skeleton) (j + 1) = Inl e"
    using j(2) jn by (simp add: nth_expansion_outcomes)
  moreover have "fst (skeleton_of_thought cap latency query) = Inl e"
    using e by (simp add: skeleton_of_thought_unfold [OF assms(1)])
  moreover have "\<forall>k < ?n. (\<exists>e'. expansion_response cap query (subpoints skeleton) (k + 1) = Inl e')
                   \<longrightarrow> latency j \<le> latency k"
    using j(3) by (simp add: set_completion_order nth_expansion_outcomes)
  ultimately show ?thesis
    using jn by blast
qed

theorem first_expansion_failure_surfaces_witness:
  "outline_response failing_expansions_capability ''q''
     = Inr \<lparr>subpoints = [''Identify distractions'', ''Practice mindfulness'']\<rparr>
   \<and> expansion_response failing_expansions_capability ''q''
        [''Identify distractions'', ''Practice mindfulness''] 1 = Inl (GenerationError ''point 1'')
   \<and> fst (skeleton_of_thought failing_expansions_capability (\<lambda>i. 2 - i) ''q'')
       = Inl (GenerationError ''point 2'')"
proof -
  let ?C = "failing_expansions_capability"
  let ?sk = "\<lparr>subpoints = [''Identify distractions'', ''Practice mindfulness'']\<rparr>"
  have out: "outline_response ?C ''q'' = Inr ?sk"
    by (simp add: failing_expansions_capability_def)
  have len: "0 < length (subpoints ?sk)"
    by simp
  have resp: "expansion_response ?C ''q'' (subpoints ?sk) (k + 1)
      = Inl (GenerationError (''point '' @ str_of_nat (k + 1)))" for k
    by (simp add: failing_expansions_capability_def)
  have fails: "expansion_response ?C ''q'' (subpoints ?sk) (0 + 1)
      = Inl (GenerationError (''point '' @ str_of_nat (0 + 1)))"
    by (rule resp)
  have "\<exists>j e. j < length (subpoints ?sk)
           \<and> expansion_response ?C ''q'' (subpoints ?sk) (j + 1) = Inl e
           \<and> fst (skeleton_of_thought ?C (\<lambda>i. 2 - i) ''q'') = Inl e
           \<and> (\<forall>k < length (subpoints ?sk).
                 (\<exists>e'. expansion_response ?C ''q'' (subpoints ?sk) (k + 1) = Inl e')
                   \<longrightarrow> 2 - j \<le> 2 - k)"
    by (rule first_expansion_failure_surfaces [OF out len fails, of "\<lambda>i. 2 - i"])
  then obtain j e where j: "j < length (subpoints ?sk)"
      and e: "expansion_response ?C ''q'' (subpoints ?sk) (j + 1) = Inl e"
      and res: "fst (skeleton_of_thought ?C (\<lambda>i. 2 - i) ''q'') = Inl e"
      and first: "\<forall>k < length (subpoints ?sk).
                 (\<exists>e'. expansion_response ?C ''q'' (subpoints ?sk) (k + 1) = Inl e')
                   \<longrightarrow> 2 - j \<le> 2 - k"
    by blast
  have "1 < length (subpoints ?sk)"
    by simp
  with first resp [of 1] have "2 - j \<le> 2 - (1::nat)"
    by blast
  with j have "j = 1"
    by simp
  with e resp [of 1] have "e = GenerationError ''point 2''"
    by (simp add: str_of_nat.simps digit_char_def)
  with res out resp [of 0] show ?thesis
    by (simp add: str_of_nat.simps digit_char_def)
qed

text \<open>
  The claim as the spec states it fails on the code: with two failing expansions the
  exception raised is the first failure alone, not an \<open>OrchestrationError\<close> that holds both.
\<close>

theorem expansion_failures_not_aggregated:
  "fst (skeleton_of_thought failing_expansions_capability (\<lambda>i. i) ''q'')
     = Inl (GenerationError ''point 1'')
   \<and> produce_structured_answer_spec failing_expansions_capability ''q''
     = Inl (OrchestrationError [GenerationError ''point 1'', GenerationError ''point 2''])
   \<and> fst (skeleton_of_thought failing_expansions_capability (\<lambda>i. i) ''q'')
     \<noteq> produce_structured_answer_spec failing_expansions_capability ''q''"
  by (simp add: skeleton_of_thought_def break_into_subpoints_def expansion_tasks_def
        enumerate_eq_zip expand_subpoint_def gather_def completion_order_def
        failing_expansions_capability_def str_of_nat.simps digit_char_def upt_rec
        produce_structured_answer_spec_def expansion_outcomes_def List.map_filter_def)

text \<open>
  Claim C6, as amended. An outline carries no length invariant: every list of labels,
  of any length, is an outline that the generator can return, and the orchestrator
  operates on it, with one expansion per entry.
\<close>

theorem outline_of_any_length_accepted:
  "fst (break_into_subpoints (fixed_outline_capability labels) query) = Inr \<lparr>subpoints = labels\<rparr>
   \<and> length (expansion_tasks query \<lparr>subpoints = labels\<rparr>) = length labels
   \<and> snd (skeleton_of_thought (fixed_outline_capability labels) latency query)
       = Outline_request query # map (Expansion_request query labels) [1..<Suc (length labels)]"
proof -
  have out: "outline_response (fixed_outline_capability labels) query = Inr \<lparr>subpoints = labels\<rparr>"
    by (simp add: fixed_outline_capability_def)
  show ?thesis
    using sent_requests [OF out, of latency]
    by (simp add: break_into_subpoints_def out expansion_tasks_eq del: upt_Suc)
qed

text \<open>
  The bound of the spec fails on the code: an empty outline and an outline of eleven
  entries both reach the orchestrator, which works on them.
\<close>

theorem outline_bound_counterexample:
  "fst (break_into_subpoints (fixed_outline_capability [] :: error capability) ''q'')
     = Inr \<lparr>subpoints = []\<rparr>
   \<and> \<not> outline_within_bounds \<lparr>subpoints = []\<rparr>
   \<and> fst (skeleton_of_thought (fixed_outline_capability [] :: error capability) (\<lambda>i. 0) ''q'')
     = Inr []
   \<and> fst (break_into_subpoints (fixed_outline_capability (replicate 11 ''Stay hydrated'')
        :: error capability) ''q'')
     = Inr \<lparr>subpoints = replicate 11 ''Stay hydrated''\<rparr>
   \<and> \<not> outline_within_bounds \<lparr>subpoints = replicate 11 ''Stay hydrated''\<rparr>
   \<and> length (snd (skeleton_of_thought (fixed_outline_capability (replicate 11 ''Stay hydrated'')
        :: error capability) (\<lambda>i. 0) ''q'')) = 12"
proof -
  have out: "outline_response (fixed_outline_capability labels :: error capability) ''q''
      = Inr \<lparr>subpoints = labels\<rparr>" for labels
    by (simp add: fixed_outline_capability_def)
  have "fst (skeleton_of_thought (fixed_outline_capability [] :: error capability) (\<lambda>i. 0) ''q'')
     = Inr []"
    by (simp add: skeleton_of_thought_def break_into_subpoints_def expansion_tasks_def
        enumerate_eq_zip gather_def completion_order_def fixed_outline_capability_def)
  moreover have "length (snd (skeleton_of_thought
      (fixed_outline_capability (replicate 11 ''Stay hydrated'') :: error capability)
      (\<lambda>i. 0) ''q'')) = 12"
    by (simp add: sent_requests [OF out] del: upt_Suc)
  ultimately show ?thesis
    by (simp add: break_into_subpoints_def out outline_within_bounds_def)
qed

text \<open>
  Claim C7. For an outline of \<open>N\<close> entries one orchestration sends exactly \<open>1 + N\<close>
  requests to the text generation capability: one outline request, and for each index
  1..N exactly one expansion request.
\<close>

theorem one_plus_N_requests:
  assumes "outline_response cap query = Inr skeleton"
  shows "length (snd (skeleton_of_thought cap latency query)) = 1 + length (subpoints skeleton)
         \<and> length (filter is_outline_request (snd (skeleton_of_thought cap latency query))) = 1
         \<and> length (filter (\<lambda>r. \<not> is_outline_request r)
               (snd (skeleton_of_thought cap latency query))) = length (subpoints skeleton)
         \<and> (\<forall>i. 1 \<le> i \<and> i \<le> length (subpoints skeleton) \<longrightarrow>
               count_list (snd (skeleton_of_thought cap latency query))
                 (Expansion_request query (subpoints skeleton) i) = 1)"
proof -
  let ?n = "length (subpoints skeleton)"
  let ?E = "Expansion_request query (subpoints skeleton)"
  have sent: "snd (skeleton_of_thought cap latency query) =
      Outline_request query # map ?E [1..<Suc ?n]"
    by (rule sent_requests [OF assms])
  have no_outline: "filter is_outline_request (map ?E [1..<Suc ?n]) = []"
    by (simp add: filter_empty_conv)
  have all_exp: "filter (\<lambda>r. \<not> is_outline_request r) (map ?E [1..<Suc ?n]) = map ?E [1..<Suc ?n]"
    by (simp add: filter_id_conv)
  have "count_list (map ?E [1..<Suc ?n]) (?E i) = 1" if "1 \<le> i" "i \<le> ?n" for i
  proof -
    have "inj ?E" by (simp add: inj_on_def)
    then have "count_list (map ?E [1..<Suc ?n]) (?E i) = count_list [1..<Suc ?n] i"
      by (rule count_list_map_conv)
    with that show ?thesis by (simp add: count_list_upt)
  qed
  then show ?thesis
    by (simp add: sent no_outline all_exp del: upt_Suc)
qed

theorem one_plus_N_requests_witness:
  "outline_response (scenario_capability :: error capability) ''q''
     = Inr \<lparr>subpoints = [''Identify distractions'', ''Implement time management techniques'',
                          ''Practice mindfulness'']\<rparr>
   \<and> length (snd (skeleton_of_thought (scenario_capability :: error capability) (\<lambda>i. i) ''q'')) = 4
   \<and> length (filter is_outline_request
        (snd (skeleton_of_thought (scenario_capability :: error capability) (\<lambda>i. i) ''q''))) = 1
   \<and> count_list (snd (skeleton_of_thought (scenario_capability :: error capability) (\<lambda>i. i) ''q''))
        (Expansion_request ''q'' [''Identify distractions'',
           ''Implement time management techniques'', ''Practice mindfulness''] 2) = 1"
  using one_plus_N_requests
    [of "scenario_capability :: error capability" "''q''"
        "\<lparr>subpoints = [''Identify distractions'', ''Implement time management techniques'',
                        ''Practice mindfulness'']\<rparr>"
        "\<lambda>i. i"]
  by (simp add: scenario_capability_def)

text \<open>
  Claim C8. When the outline has no entry, the orchestrator does not fail: it sends no
  expansion request (the only request is the outline's) and returns the empty string.
\<close>

theorem skeleton_of_thought_empty_outline:
  assumes "outline_response cap query = Inr skeleton"
      and "subpoints skeleton = []"
  shows "skeleton_of_thought cap latency query = (Inr [], [Outline_request query])
         \<and> expansion_tasks query skeleton = []"
  using assms
  by (simp add: skeleton_of_thought_def break_into_subpoints_def expansion_tasks_def
        gather_def completion_order_Nil enumerate_eq_zip)

theorem skeleton_of_thought_empty_outline_witness:
  "outline_response (fixed_outline_capability [] :: error capability) ''q'' = Inr \<lparr>subpoints = []\<rparr>
   \<and> skeleton_of_thought (fixed_outline_capability [] :: error capability) (\<lambda>i. 0) ''q''
       = (Inr [], [Outline_request ''q''])"
  using skeleton_of_thought_empty_outline
    [of "fixed_outline_capability [] :: error capability" "''q''" "\<lparr>subpoints = []\<rparr>" "\<lambda>i. 0"]
  by (simp add: fixed_outline_capability_def)

section \<open>Properties of the checks on generated code\<close>

text \<open>Aliases have no children, and the loop passes over them.\<close>

lemma walk_todo_aliases: "walk_todo (map Alias names) = map Alias names"
  by (induction names) simp_all

lemma check_nodes_aliases: "check_nodes py (map Alias names) = Inr True"
  by (induction names) simp_all




text \<open>
  Claim C10. Of a plain \<^verbatim>\<open>import\<close> statement that names several modules, the first
  name is checked and no other. A text that is one such statement is judged by
  \<^verbatim>\<open>check_module\<close> of the first name: importable when that module is found, whatever
  the names after it, and not importable when it is not found, whatever the names after
  it. Anywhere in the walk, the loop stops or goes on by the first name alone, and
  treats the statement like the import of its first name.
\<close>

theorem import_checks_first_name_only:
  assumes "ast_parse py code_string = Inr (Module [Import (a # others)])"
  shows "is_importable py code_string = check_module py (Some (name a))
         \<and> (find_spec py (Some (name a)) = Inr (Some spec)
               \<longrightarrow> is_importable py code_string = Inr True)
         \<and> (find_spec py (Some (name a)) = Inr None
               \<longrightarrow> is_importable py code_string = Inr False)
         \<and> check_nodes py' (Import (a # others) # after)
             = (case check_module py' (Some (name a)) of
                  Inl e \<Rightarrow> Inl e
                | Inr found \<Rightarrow> if found then check_nodes py' after else Inr False)
         \<and> check_nodes py' (before @ Import (a # others) # after)
             = check_nodes py' (before @ Import [a] # after)"
proof -
  have anywhere: "check_nodes py' (before @ Import (a # others) # after)
      = check_nodes py' (before @ Import [a] # after)"
    by (induction py' before rule: check_nodes.induct)
       (auto split: list.splits sum.splits)
  have step: "check_nodes py' (Import (a # others) # after)
      = (case check_module py' (Some (name a)) of
           Inl e \<Rightarrow> Inl e
         | Inr found \<Rightarrow> if found then check_nodes py' after else Inr False)"
    by (simp split: sum.splits)
  have "walk (Module [Import (a # others)])
      = Module [Import (a # others)] # Import (a # others) # map Alias (a # others)"
    using walk_todo_aliases [of "a # others"] by (simp add: walk_def)
  then have "check_nodes py (walk (Module [Import (a # others)]))
      = check_module py (Some (name a))"
    using check_nodes_aliases [of py "a # others"]
    by (simp split: sum.splits)
  then have main: "is_importable py code_string = check_module py (Some (name a))"
    using assms by (simp add: is_importable_def)
  have "find_spec py (Some (name a)) = Inr (Some spec)
          \<longrightarrow> is_importable py code_string = Inr True"
    by (simp add: main check_module_def)
  moreover have "find_spec py (Some (name a)) = Inr None
          \<longrightarrow> is_importable py code_string = Inr False"
    by (simp add: main check_module_def)
  ultimately show ?thesis
    using main step anywhere by blast
qed

theorem import_checks_first_name_only_witness:
  "ast_parse example_python ''import math, non_existent_module''
     = Inr (Module [Import [\<lparr>name = ''math''\<rparr>, \<lparr>name = ''non_existent_module''\<rparr>]])
   \<and> find_spec example_python (Some ''math'') = Inr (Some ''math'')
   \<and> is_importable example_python ''import math, non_existent_module'' = Inr True
   \<and> ast_parse example_python ''import non_existent_module, math''
     = Inr (Module [Import [\<lparr>name = ''non_existent_module''\<rparr>, \<lparr>name = ''math''\<rparr>]])
   \<and> find_spec example_python (Some ''non_existent_module'') = Inr None
   \<and> is_importable example_python ''import non_existent_module, math'' = Inr False"
  using import_checks_first_name_only
          [of example_python "''import math, non_existent_module''" "\<lparr>name = ''math''\<rparr>"
              "[\<lparr>name = ''non_existent_module''\<rparr>]" "''math''" example_python "[]" "[]"]
        import_checks_first_name_only
          [of example_python "''import non_existent_module, math''"
              "\<lparr>name = ''non_existent_module''\<rparr>" "[\<lparr>name = ''math''\<rparr>]" "''math''"
              example_python "[]" "[]"]
  by (simp add: example_python_def check_module_def)

end
